theory Spec2Isabelle
  imports Complex_Main "HOL-Library.Char_ord" "HOL-Library.List_Lexorder"
begin

section \<open>Data model (src/types/index.ts, init.sql)\<close>

text \<open>
  Identifiers are UUID strings. Money is \<^verbatim>\<open>DECIMAL(20, 2)\<close> in storage; it is modelled as the
  exact integer number of hundredths, so the arithmetic of the services is exact integer
  arithmetic (values are taken to be within the precision of the column and of a JavaScript
  number). Timestamps are integers (milliseconds).

  Field names follow the source; \<^verbatim>\<open>id\<close>, \<^verbatim>\<open>type\<close> and the second \<^verbatim>\<open>created_at\<close> are prefixed
  because a record field is a global constant: \<open>acct_id\<close>, \<open>acct_created_at\<close> for accounts,
  \<open>txn_id\<close>, \<open>txn_type\<close> for transactions.
\<close>

type_synonym uuid = string

datatype currency = USD | INR

datatype transaction_type = DEPOSIT | WITHDRAWAL | TRANSFER_DEBIT | TRANSFER_CREDIT

record account =
  acct_id :: uuid
  user_id :: string
  currency :: currency
  balance :: int
  acct_created_at :: int
  updated_at :: int
  version :: int

record transaction_row =
  txn_id :: uuid
  account_id :: uuid
  txn_type :: transaction_type
  amount :: int
  balance_after :: int
  related_transaction_id :: "uuid option"
  description :: "string option"
  created_at :: int

record idempotency_row =
  key_hash :: string
  request_method :: string
  request_path :: string
  response_status :: int
  response_body :: string
  idem_created_at :: int
  expires_at :: int

text \<open>
  The three tables of init.sql. \<open>accounts\<close> and \<open>idempotency_keys\<close> are keyed by their
  unique column (\<^verbatim>\<open>id PRIMARY KEY\<close>, \<^verbatim>\<open>key_hash UNIQUE\<close>); \<open>transactions\<close> is the list of
  rows in insertion order.
\<close>

record database =
  accounts :: "uuid \<rightharpoonup> account"
  transactions :: "transaction_row list"
  idempotency_keys :: "string \<rightharpoonup> idempotency_row"

text \<open>
  The constraints of init.sql that a statement can violate. Postgres raises an error for
  each; the services do not catch it, so it reaches the caller as an unexpected storage
  fault.
\<close>

datatype db_violation =
    CheckViolation        \<comment> \<open>\<^verbatim>\<open>CHECK (balance >= 0)\<close>, \<^verbatim>\<open>CHECK (amount > 0)\<close>, \<^verbatim>\<open>CHECK (balance_after >= 0)\<close>\<close>
  | PrimaryKeyViolation   \<comment> \<open>\<^verbatim>\<open>id UUID PRIMARY KEY\<close>\<close>
  | ForeignKeyViolation   \<comment> \<open>\<^verbatim>\<open>REFERENCES accounts(id)\<close>, \<^verbatim>\<open>REFERENCES transactions(id)\<close>\<close>
  | LimitNegative         \<comment> \<open>\<^verbatim>\<open>LIMIT\<close> must not be negative\<close>
  | OffsetNegative        \<comment> \<open>\<^verbatim>\<open>OFFSET\<close> must not be negative\<close>
  | RowMissing            \<comment> \<open>reading \<^verbatim>\<open>rows[0]\<close> of an empty result\<close>

text \<open>The errors the services throw, one constructor per message of the source.\<close>

datatype error =
    AccountNotFound       \<comment> \<open>'Account not found'\<close>
  | FromAccountNotFound   \<comment> \<open>'From account not found'\<close>
  | ToAccountNotFound     \<comment> \<open>'To account not found'\<close>
  | InsufficientFunds     \<comment> \<open>'Insufficient funds. Account cannot go negative.'\<close>
  | CurrencyMismatch      \<comment> \<open>'Cannot transfer between different currencies'\<close>
  | SameAccount           \<comment> \<open>'Cannot transfer to the same account'\<close>
  | VersionConflict       \<comment> \<open>'Concurrent modification detected. Please retry.'\<close>
  | ValidationError       \<comment> \<open>AppError 400 'Page and limit must be positive integers'\<close>
  | InternalFailure db_violation

section \<open>Units of work (src/config/database.ts)\<close>

text \<open>
  A \<open>session\<close> is the state of one pooled client between \<^verbatim>\<open>BEGIN\<close> and \<^verbatim>\<open>COMMIT\<close> or
  \<^verbatim>\<open>ROLLBACK\<close>: the tables as this unit of work sees them (its own writes included), the
  rows it has locked with \<^verbatim>\<open>FOR UPDATE\<close> in the order it locked them, and the start time of
  the unit of work, which is what \<^verbatim>\<open>CURRENT_TIMESTAMP\<close> returns in every statement of it.
\<close>

record session =
  db :: database
  locked :: "uuid list"
  started :: int

type_synonym 'a tx = "session \<Rightarrow> (error + 'a) \<times> session"

text \<open>
  \<^verbatim>\<open>transaction(callback)\<close>: \<^verbatim>\<open>BEGIN\<close>, run the callback, \<^verbatim>\<open>COMMIT\<close> and return its result; on
  any throw \<^verbatim>\<open>ROLLBACK\<close> and rethrow. The callback returns the session also when it fails,
  with the writes it made before failing; the rollback discards them.
\<close>

definition transaction :: "'a tx \<Rightarrow> int \<Rightarrow> database \<Rightarrow> (error + 'a) \<times> database" where
  "transaction callback now d =
     (case callback \<lparr>db = d, locked = [], started = now\<rparr> of
        (Inr result, s) \<Rightarrow> (Inr result, db s)
      | (Inl e, s) \<Rightarrow> (Inl e, d))"

section \<open>AccountService (src/services/accountService.ts)\<close>

text \<open>\<^verbatim>\<open>getAccountById\<close>: a plain read outside any unit of work.\<close>

definition getAccountById :: "uuid \<Rightarrow> database \<Rightarrow> account option" where
  "getAccountById accountId d = accounts d accountId"

text \<open>
  \<^verbatim>\<open>SELECT ... WHERE id = $1 FOR UPDATE\<close>: returns the row, if any, and locks it for the rest
  of the unit of work. The lock is recorded in \<open>locked\<close>.
\<close>

definition select_for_update :: "uuid \<Rightarrow> session \<Rightarrow> account option \<times> session" where
  "select_for_update accountId s =
     (case accounts (db s) accountId of
        None \<Rightarrow> (None, s)
      | Some a \<Rightarrow> (Some a, s\<lparr>locked := locked s @ [accountId]\<rparr>))"

definition getAccountWithLock :: "uuid \<Rightarrow> session \<Rightarrow> account option \<times> session" where
  "getAccountWithLock accountId s = select_for_update accountId s"

text \<open>
  \<^verbatim>\<open>updateAccountBalance\<close>:
  \<^verbatim>\<open>UPDATE accounts SET balance = $1, version = version + 1 WHERE id = $2 AND version = $3 RETURNING id\<close>
  and 'Concurrent modification detected' when no row is returned. On the row that matches,
  \<^verbatim>\<open>CHECK (balance >= 0)\<close> is evaluated on the new value, and the trigger of init.sql sets
  \<^verbatim>\<open>updated_at\<close>.
\<close>

definition updateAccountBalance :: "uuid \<Rightarrow> int \<Rightarrow> int \<Rightarrow> unit tx" where
  "updateAccountBalance accountId newBalance ver s =
     (case accounts (db s) accountId of
        None \<Rightarrow> (Inl VersionConflict, s)
      | Some a \<Rightarrow>
          if version a \<noteq> ver then (Inl VersionConflict, s)
          else if newBalance < 0 then (Inl (InternalFailure CheckViolation), s)
          else (Inr (),
                s\<lparr>db := (db s)\<lparr>accounts := (accounts (db s))(accountId \<mapsto>
                      a\<lparr>balance := newBalance, version := version a + 1,
                        updated_at := started s\<rparr>)\<rparr>\<rparr>))"

section \<open>TransactionService (src/services/transactionService.ts)\<close>

record RecordTransactionRequest =
  rt_account_id :: uuid
  rt_type :: transaction_type   \<comment> \<open>'DEPOSIT' | 'WITHDRAWAL' for a validated request\<close>
  rt_amount :: int
  rt_description :: "string option"

record TransferRequest =
  from_account_id :: uuid
  to_account_id :: uuid
  tr_amount :: int
  tr_description :: "string option"



record TransferResult =
  debit_transaction :: transaction_row
  credit_transaction :: transaction_row

text \<open>
  \<^verbatim>\<open>INSERT INTO transactions ... \<close>: the row is appended unless a constraint of init.sql
  rejects it. The check constraints are evaluated on the new row, then the primary key, and
  at the end of the statement the two foreign keys (neither is declared deferrable):
  \<^verbatim>\<open>account_id\<close> must be an existing account, and a \<^verbatim>\<open>related_transaction_id\<close> that is not
  null must be the id of a row of \<open>transactions\<close> as it is after this statement.
\<close>

definition insert_transaction :: "transaction_row \<Rightarrow> transaction_row tx" where
  "insert_transaction row s =
     (let d = db s in
      if amount row \<le> 0 \<or> balance_after row < 0 then (Inl (InternalFailure CheckViolation), s)
      else if txn_id row \<in> set (map txn_id (transactions d))
        then (Inl (InternalFailure PrimaryKeyViolation), s)
      else if accounts d (account_id row) = None
        then (Inl (InternalFailure ForeignKeyViolation), s)
      else if (case related_transaction_id row of
                 None \<Rightarrow> False
               | Some r \<Rightarrow> r \<notin> set (map txn_id (transactions d @ [row])))
        then (Inl (InternalFailure ForeignKeyViolation), s)
      else (Inr row, s\<lparr>db := d\<lparr>transactions := transactions d @ [row]\<rparr>\<rparr>))"

text \<open>\<^verbatim>\<open>SELECT ... FROM transactions WHERE id = $1\<close> followed by \<^verbatim>\<open>rows[0]\<close>.\<close>

definition select_transaction :: "uuid \<Rightarrow> transaction_row tx" where
  "select_transaction transactionId s =
     (case filter (\<lambda>r. txn_id r = transactionId) (transactions (db s)) of
        [] \<Rightarrow> (Inl (InternalFailure RowMissing), s)
      | r # _ \<Rightarrow> (Inr r, s))"

text \<open>JavaScript's \<^verbatim>\<open>x || y\<close> on an optional string and on an optional number.\<close>

definition or_string :: "string option \<Rightarrow> string option \<Rightarrow> string option" where
  "or_string x y = (case x of None \<Rightarrow> y | Some t \<Rightarrow> if t = [] then y else Some t)"


text \<open>
  \<^verbatim>\<open>recordTransaction\<close>. \<open>recordTransaction_locked\<close> is the callback from the point where it
  holds the locked account row; \<open>transactionId\<close> is the value of \<^verbatim>\<open>uuidv4()\<close>.
\<close>

definition recordTransaction_locked ::
    "RecordTransactionRequest \<Rightarrow> uuid \<Rightarrow> account \<Rightarrow> transaction_row tx" where
  "recordTransaction_locked request transactionId account s =
     (let newBalance = (if rt_type request = DEPOSIT
                        then balance account + rt_amount request
                        else balance account - rt_amount request)
      in if rt_type request \<noteq> DEPOSIT \<and> newBalance < 0 then (Inl InsufficientFunds, s)
         else
           (case updateAccountBalance (acct_id account) newBalance (version account) s of
              (Inl e, s1) \<Rightarrow> (Inl e, s1)
            | (Inr _, s1) \<Rightarrow>
                insert_transaction
                  \<lparr>txn_id = transactionId, account_id = acct_id account,
                   txn_type = rt_type request, amount = rt_amount request,
                   balance_after = newBalance, related_transaction_id = None,
                   description = or_string (rt_description request) None,
                   created_at = started s1\<rparr> s1))"

definition recordTransaction_callback ::
    "RecordTransactionRequest \<Rightarrow> uuid \<Rightarrow> transaction_row tx" where
  "recordTransaction_callback request transactionId s =
     (case getAccountWithLock (rt_account_id request) s of
        (None, s1) \<Rightarrow> (Inl AccountNotFound, s1)
      | (Some account, s1) \<Rightarrow> recordTransaction_locked request transactionId account s1)"

definition recordTransaction ::
    "RecordTransactionRequest \<Rightarrow> uuid \<Rightarrow> int \<Rightarrow> database \<Rightarrow> (error + transaction_row) \<times> database" where
  "recordTransaction request transactionId now d =
     transaction (recordTransaction_callback request transactionId) now d"

text \<open>
  \<^verbatim>\<open>transfer\<close>. \<open>debitId\<close> and \<open>creditId\<close> are the two values of \<^verbatim>\<open>uuidv4()\<close>. The callback
  computes the sorted pair \<open>accountIds\<close> and then issues the two \<^verbatim>\<open>FOR UPDATE\<close> queries with
  \<^verbatim>\<open>request.from_account_id\<close> and \<^verbatim>\<open>request.to_account_id\<close>, as the source does.
\<close>

definition transfer_callback :: "TransferRequest \<Rightarrow> uuid \<Rightarrow> uuid \<Rightarrow> TransferResult tx" where
  "transfer_callback request debitId creditId s0 =
     (let accountIds = sort [from_account_id request, to_account_id request];
          (fromAccount, s1) = select_for_update (from_account_id request) s0;
          (toAccount, s2) = select_for_update (to_account_id request) s1
      in case fromAccount of
           None \<Rightarrow> (Inl FromAccountNotFound, s2)
         | Some from \<Rightarrow>
        (case toAccount of
           None \<Rightarrow> (Inl ToAccountNotFound, s2)
         | Some to \<Rightarrow>
        if currency from \<noteq> currency to then (Inl CurrencyMismatch, s2)
        else
          let newFromBalance = balance from - tr_amount request in
          if newFromBalance < 0 then (Inl InsufficientFunds, s2)
          else
            let newToBalance = balance to + tr_amount request in
            (case updateAccountBalance (acct_id from) newFromBalance (version from) s2 of
               (Inl e, s3) \<Rightarrow> (Inl e, s3)
             | (Inr _, s3) \<Rightarrow>
            (case updateAccountBalance (acct_id to) newToBalance (version to) s3 of
               (Inl e, s4) \<Rightarrow> (Inl e, s4)
             | (Inr _, s4) \<Rightarrow>
            (case insert_transaction
                    \<lparr>txn_id = debitId, account_id = acct_id from, txn_type = TRANSFER_DEBIT,
                     amount = tr_amount request, balance_after = newFromBalance,
                     related_transaction_id = Some creditId,
                     description = or_string (tr_description request)
                                     (Some (''Transfer to '' @ user_id to)),
                     created_at = started s4\<rparr> s4 of
               (Inl e, s5) \<Rightarrow> (Inl e, s5)
             | (Inr _, s5) \<Rightarrow>
            (case insert_transaction
                    \<lparr>txn_id = creditId, account_id = acct_id to, txn_type = TRANSFER_CREDIT,
                     amount = tr_amount request, balance_after = newToBalance,
                     related_transaction_id = Some debitId,
                     description = or_string (tr_description request)
                                     (Some (''Transfer from '' @ user_id from)),
                     created_at = started s5\<rparr> s5 of
               (Inl e, s6) \<Rightarrow> (Inl e, s6)
             | (Inr _, s6) \<Rightarrow>
            (case select_transaction debitId s6 of
               (Inl e, s7) \<Rightarrow> (Inl e, s7)
             | (Inr debitRow, s7) \<Rightarrow>
            (case select_transaction creditId s7 of
               (Inl e, s8) \<Rightarrow> (Inl e, s8)
             | (Inr creditRow, s8) \<Rightarrow>
                 (Inr \<lparr>debit_transaction = debitRow, credit_transaction = creditRow\<rparr>,
                  s8)))))))))"

definition transfer ::
    "TransferRequest \<Rightarrow> uuid \<Rightarrow> uuid \<Rightarrow> int \<Rightarrow> database \<Rightarrow> (error + TransferResult) \<times> database" where
  "transfer request debitId creditId now d =
     (if from_account_id request = to_account_id request then (Inl SameAccount, d)
      else transaction (transfer_callback request debitId creditId) now d)"

definition getBalance :: "uuid \<Rightarrow> database \<Rightarrow> error + int" where
  "getBalance accountId d =
     (case getAccountById accountId d of
        None \<Rightarrow> Inl AccountNotFound
      | Some account \<Rightarrow> Inr (balance account))"





section \<open>Idempotency (src/utils/idempotency.ts, src/middleware/idempotency.ts)\<close>

text \<open>
  \<^verbatim>\<open>generateIdempotencyKeyHash\<close>. The digest \<^verbatim>\<open>createHash('sha256')...digest('hex')\<close> is Node's;
  it is the parameter \<open>sha256_hex\<close>.
\<close>

definition generateIdempotencyKeyHash ::
    "(string \<Rightarrow> string) \<Rightarrow> string \<Rightarrow> string \<Rightarrow> string \<Rightarrow> string" where
  "generateIdempotencyKeyHash sha256_hex method path key =
     (let combined = method @ '':'' @ path @ '':'' @ key in sha256_hex combined)"

text \<open>
  \<^verbatim>\<open>getIdempotencyRecord\<close>:
  \<^verbatim>\<open>SELECT response_status, response_body ... WHERE key_hash = $1 AND expires_at > CURRENT_TIMESTAMP\<close>.
\<close>

definition getIdempotencyRecord :: "string \<Rightarrow> int \<Rightarrow> database \<Rightarrow> (int \<times> string) option" where
  "getIdempotencyRecord keyHash now d =
     (case idempotency_keys d keyHash of
        None \<Rightarrow> None
      | Some r \<Rightarrow> if expires_at r > now then Some (response_status r, response_body r) else None)"

text \<open>
  \<^verbatim>\<open>storeIdempotencyRecord\<close>: one statement,
  \<^verbatim>\<open>INSERT INTO idempotency_keys ... ON CONFLICT (key_hash) DO NOTHING\<close>, with an expiry 24 hours
  after \<open>now\<close>. \<open>body\<close> is the serialised response, \<^verbatim>\<open>JSON.stringify(body)\<close>. The statement is
  the same with and without the optional client.
\<close>

definition storeIdempotencyRecord ::
    "string \<Rightarrow> string \<Rightarrow> string \<Rightarrow> int \<Rightarrow> string \<Rightarrow> int \<Rightarrow> database \<Rightarrow> database" where
  "storeIdempotencyRecord keyHash method path status body now d =
     (let expiresAt = now + 24 * 60 * 60 * 1000
      in case idempotency_keys d keyHash of
           Some existing \<Rightarrow> d
         | None \<Rightarrow>
             d\<lparr>idempotency_keys := (idempotency_keys d)(keyHash \<mapsto>
                 \<lparr>key_hash = keyHash, request_method = method, request_path = path,
                  response_status = status, response_body = body,
                  idem_created_at = now, expires_at = expiresAt\<rparr>)\<rparr>)"

text \<open>A store attempt, and a sequence of attempts in the order the database executes them.\<close>

type_synonym store_attempt = "string \<times> string \<times> string \<times> int \<times> string \<times> int"

fun store_attempt :: "store_attempt \<Rightarrow> database \<Rightarrow> database" where
  "store_attempt (keyHash, method, path, status, body, now) d =
     storeIdempotencyRecord keyHash method path status body now d"

fun store_attempts :: "store_attempt list \<Rightarrow> database \<Rightarrow> database" where
  "store_attempts [] d = d"
| "store_attempts (a # as) d = store_attempts as (store_attempt a d)"

text \<open>
  The part of an HTTP request the middleware can read, and what \<^verbatim>\<open>idempotencyMiddleware\<close>
  decides: pass the request on, pass it on and store its response under the key hash, or
  answer with the cached status and body.
\<close>

record http_request =
  req_method :: string
  req_path :: string
  req_idempotency_key :: "string option"   \<comment> \<open>\<^verbatim>\<open>req.headers['idempotency-key']\<close>\<close>
  req_body :: string

datatype middleware_outcome = Next | NextAndStore string | Replay int string

definition idempotencyMiddleware ::
    "(string \<Rightarrow> string) \<Rightarrow> http_request \<Rightarrow> int \<Rightarrow> database \<Rightarrow> middleware_outcome" where
  "idempotencyMiddleware sha256_hex req now d =
     (case req_idempotency_key req of
        None \<Rightarrow> Next
      | Some idempotencyKey \<Rightarrow>
          if idempotencyKey = [] then Next
          else
            let keyHash = generateIdempotencyKeyHash sha256_hex
                            (req_method req) (req_path req) idempotencyKey
            in (case getIdempotencyRecord keyHash now d of
                  Some (status, body) \<Rightarrow> Replay status body
                | None \<Rightarrow> NextAndStore keyHash))"

section \<open>Concurrent units of work on locked rows\<close>

text \<open>
  Several \<^verbatim>\<open>recordTransaction\<close> calls in flight at once. A job is a request with its
  \<^verbatim>\<open>uuidv4()\<close> value and its start time. A job that has not yet run its \<^verbatim>\<open>FOR UPDATE\<close> query
  is waiting; the query is granted only while no running job holds a lock on that row
  (otherwise it blocks, that is, the job stays in \<open>waiting\<close>), and it reads the committed
  row. A running job holds the account it read and its locks; when it runs the rest of its
  callback it either commits, which publishes its writes, or rolls back. Both end the unit
  of work and release its locks. Statements see the committed tables (read committed).
\<close>

type_synonym job = "RecordTransactionRequest \<times> uuid \<times> int"

record config =
  shared :: database
  waiting :: "job list"
  running :: "(job \<times> account \<times> uuid list) list"
  finished :: "(job \<times> (error + transaction_row)) list"



definition successes :: "config \<Rightarrow> nat" where
  "successes c = length (filter (\<lambda>(j, r). \<not> isl r) (finished c))"







section \<open>Example data\<close>

text \<open>
  The setting of the transfer tests: two USD accounts, the first funded with a deposit of
  1000.00, and an INR account.
\<close>

definition account1 :: account where
  "account1 = \<lparr>acct_id = ''a1'', user_id = ''user4'', currency = USD, balance = 100000,
               acct_created_at = 1, updated_at = 3, version = 1\<rparr>"

definition account2 :: account where
  "account2 = \<lparr>acct_id = ''b2'', user_id = ''user5'', currency = USD, balance = 0,
               acct_created_at = 2, updated_at = 2, version = 0\<rparr>"

definition account3 :: account where
  "account3 = \<lparr>acct_id = ''c3'', user_id = ''user6'', currency = INR, balance = 0,
               acct_created_at = 4, updated_at = 4, version = 0\<rparr>"

definition deposit1 :: transaction_row where
  "deposit1 = \<lparr>txn_id = ''t1'', account_id = ''a1'', txn_type = DEPOSIT, amount = 100000,
               balance_after = 100000, related_transaction_id = None, description = None,
               created_at = 3\<rparr>"

definition example_db :: database where
  "example_db = \<lparr>accounts = [''a1'' \<mapsto> account1, ''b2'' \<mapsto> account2, ''c3'' \<mapsto> account3],
                 transactions = [deposit1], idempotency_keys = Map.empty\<rparr>"

definition example_session :: session where
  "example_session = \<lparr>db = example_db, locked = [], started = 10\<rparr>"



section \<open>Evaluation\<close>

lemmas example_defs =
  example_session_def example_db_def account1_def account2_def account3_def deposit1_def

lemmas service_defs =
  transfer_def transaction_def transfer_callback_def select_for_update_def
  updateAccountBalance_def insert_transaction_def select_transaction_def or_string_def
  recordTransaction_def recordTransaction_callback_def recordTransaction_locked_def
  getAccountWithLock_def

section \<open>Version-checked balance update\<close>




section \<open>Lock order of a transfer\<close>

lemma locked_updateAccountBalance [simp]:
  "locked (snd (updateAccountBalance k nb v s)) = locked s"
  by (simp add: updateAccountBalance_def split: option.splits)

lemma locked_insert_transaction [simp]:
  "locked (snd (insert_transaction row s)) = locked s"
  by (simp add: insert_transaction_def Let_def)

lemma locked_select_transaction [simp]:
  "locked (snd (select_transaction k s)) = locked s"
  by (simp add: select_transaction_def split: list.splits)

lemma transfer_callback_locked:
  assumes "accounts (db s) (from_account_id request) = Some a"
    and "accounts (db s) (to_account_id request) = Some b"
  shows "locked (snd (transfer_callback request debitId creditId s))
           = locked s @ [from_account_id request, to_account_id request]"
proof -
  have l: "\<And>f r s' (t::session). f = (r, s') \<Longrightarrow> locked (snd f) = locked t \<Longrightarrow> locked s' = locked t"
    by simp
  show ?thesis
    using assms
    unfolding transfer_callback_def select_for_update_def
    by (auto simp: Let_def split: prod.splits sum.splits option.splits
          dest!: l[OF _ locked_updateAccountBalance] l[OF _ locked_insert_transaction]
                 l[OF _ locked_select_transaction])
qed

text \<open>
  C1. The callback locks the source row, then the destination row: for the pair \<open>a1\<close>,
  \<open>b2\<close> a transfer from \<open>a1\<close> acquires \<open>a1\<close> first and a transfer from \<open>b2\<close> acquires
  \<open>b2\<close> first, although the sorted pair is the same for both.
\<close>

theorem transfer_locks_in_request_order:
  "locked (snd (transfer_callback
      \<lparr>from_account_id = ''a1'', to_account_id = ''b2'', tr_amount = 30000, tr_description = None\<rparr>
      ''d1'' ''c1'' example_session)) = [''a1'', ''b2''] \<and>
   locked (snd (transfer_callback
      \<lparr>from_account_id = ''b2'', to_account_id = ''a1'', tr_amount = 30000, tr_description = None\<rparr>
      ''d2'' ''c2'' example_session)) = [''b2'', ''a1''] \<and>
   sort [''a1'', ''b2''] = [''a1'', ''b2''] \<and> sort [''b2'', ''a1''] = [''a1'', ''b2'']"
  by (simp add: service_defs example_defs Let_def)

section \<open>The two rows of a transfer\<close>

lemma insert_transaction_ok_ids:
  "insert_transaction row s = (Inr r, s') \<Longrightarrow>
     map txn_id (transactions (db s')) = map txn_id (transactions (db s)) @ [txn_id row] \<and>
     txn_id row \<notin> set (map txn_id (transactions (db s))) \<and>
     (\<forall>k. related_transaction_id row = Some k \<longrightarrow> k \<in> set (map txn_id (transactions (db s))) \<or> k = txn_id row)"
  by (auto simp: insert_transaction_def Let_def split: if_splits option.splits)

lemma transfer_callback_fails:
  "isl (fst (transfer_callback request debitId creditId s))"
  unfolding transfer_callback_def
  by (auto simp: Let_def split: prod.splits sum.splits option.splits dest!: insert_transaction_ok_ids)

lemma transfer_never_succeeds:
  "isl (fst (transfer request debitId creditId now d))"
  using transfer_callback_fails [of request debitId creditId "\<lparr>db = d, locked = [], started = now\<rparr>"]
  by (auto simp: transfer_def transaction_def split: prod.splits sum.splits)

text \<open>
  C2. The transfer of the test suite (300.00 from the funded account to the empty one): the
  debit row names the credit row, which is not yet in the table, so the foreign key rejects
  the first insert and the unit of work is rolled back. By \<open>transfer_never_succeeds\<close> no
  transfer returns a result.
\<close>

theorem transfer_example_fails:
  "transfer \<lparr>from_account_id = ''a1'', to_account_id = ''b2'', tr_amount = 30000,
             tr_description = Some ''Test transfer''\<rparr> ''d1'' ''c1'' 10 example_db
     = (Inl (InternalFailure ForeignKeyViolation), example_db)"
  by (simp add: service_defs example_defs Let_def)

section \<open>Deposits and withdrawals\<close>



section \<open>Rollback\<close>

lemma transaction_rollback:
  "isl (fst (transaction callback now d)) \<Longrightarrow> snd (transaction callback now d) = d"
  by (auto simp: transaction_def split: prod.splits sum.splits)

text \<open>
  C4. A \<open>recordTransaction\<close> or a \<open>transfer\<close> that fails returns the database it was
  given: whatever its callback wrote is discarded. A transfer between two existing
  accounts of different currencies fails with \<open>CurrencyMismatch\<close> and returns the database
  it was given (accounts, transaction log and idempotency records).
\<close>

theorem failed_operation_leaves_database_unchanged:
  "(isl (fst (recordTransaction request transactionId now d)) \<longrightarrow>
      snd (recordTransaction request transactionId now d) = d) \<and>
   (isl (fst (transfer trequest debitId creditId now d)) \<longrightarrow>
      snd (transfer trequest debitId creditId now d) = d) \<and>
   (from_account_id trequest \<noteq> to_account_id trequest \<and>
    accounts d (from_account_id trequest) = Some a \<and>
    accounts d (to_account_id trequest) = Some b \<and> currency a \<noteq> currency b \<longrightarrow>
      transfer trequest debitId creditId now d = (Inl CurrencyMismatch, d))"
proof (intro conjI impI)
  assume "isl (fst (recordTransaction request transactionId now d))"
  then show "snd (recordTransaction request transactionId now d) = d"
    unfolding recordTransaction_def by (rule transaction_rollback)
next
  assume f: "isl (fst (transfer trequest debitId creditId now d))"
  show "snd (transfer trequest debitId creditId now d) = d"
  proof (cases "from_account_id trequest = to_account_id trequest")
    case True
    then show ?thesis by (simp add: transfer_def)
  next
    case False
    with f show ?thesis by (simp add: transfer_def transaction_rollback)
  qed
next
  assume "from_account_id trequest \<noteq> to_account_id trequest \<and>
    accounts d (from_account_id trequest) = Some a \<and>
    accounts d (to_account_id trequest) = Some b \<and> currency a \<noteq> currency b"
  then show "transfer trequest debitId creditId now d = (Inl CurrencyMismatch, d)"
    by (simp add: transfer_def transaction_def transfer_callback_def select_for_update_def Let_def)
qed

text \<open>
  The third line is a failing transfer whose callback had already written both balances
  (the state of its session is the fourth line); the database returned is the original.
\<close>

theorem failed_operation_leaves_database_unchanged_witness:
  "recordTransaction
      \<lparr>rt_account_id = ''a1'', rt_type = WITHDRAWAL, rt_amount = 100001, rt_description = None\<rparr>
      ''t2'' 20 example_db = (Inl InsufficientFunds, example_db) \<and>
   transfer
      \<lparr>from_account_id = ''a1'', to_account_id = ''c3'', tr_amount = 10000, tr_description = None\<rparr>
      ''d1'' ''c1'' 20 example_db = (Inl CurrencyMismatch, example_db) \<and>
   transfer
      \<lparr>from_account_id = ''a1'', to_account_id = ''b2'', tr_amount = 30000, tr_description = None\<rparr>
      ''d1'' ''c1'' 20 example_db = (Inl (InternalFailure ForeignKeyViolation), example_db) \<and>
   accounts (db (snd (transfer_callback
      \<lparr>from_account_id = ''a1'', to_account_id = ''b2'', tr_amount = 30000, tr_description = None\<rparr>
      ''d1'' ''c1'' \<lparr>db = example_db, locked = [], started = 20\<rparr>))) ''a1''
     = Some (account1\<lparr>balance := 70000, version := 2, updated_at := 20\<rparr>)"
proof -
  have 1: "fst (recordTransaction
      \<lparr>rt_account_id = ''a1'', rt_type = WITHDRAWAL, rt_amount = 100001, rt_description = None\<rparr>
      ''t2'' 20 example_db) = Inl InsufficientFunds"
    by (simp add: service_defs example_defs Let_def)
  have 2: "fst (transfer
      \<lparr>from_account_id = ''a1'', to_account_id = ''b2'', tr_amount = 30000, tr_description = None\<rparr>
      ''d1'' ''c1'' 20 example_db) = Inl (InternalFailure ForeignKeyViolation)"
    by (simp add: service_defs example_defs Let_def)
  have 3: "accounts example_db ''a1'' = Some account1 \<and> accounts example_db ''c3'' = Some account3 \<and>
           currency account1 \<noteq> currency account3"
    by (simp add: example_defs)
  have 4: "accounts (db (snd (transfer_callback
      \<lparr>from_account_id = ''a1'', to_account_id = ''b2'', tr_amount = 30000, tr_description = None\<rparr>
      ''d1'' ''c1'' \<lparr>db = example_db, locked = [], started = 20\<rparr>))) ''a1''
     = Some (account1\<lparr>balance := 70000, version := 2, updated_at := 20\<rparr>)"
    by (simp add: service_defs example_defs Let_def)
  have 5: "snd (recordTransaction
      \<lparr>rt_account_id = ''a1'', rt_type = WITHDRAWAL, rt_amount = 100001, rt_description = None\<rparr>
      ''t2'' 20 example_db) = example_db"
    using failed_operation_leaves_database_unchanged
            [of "\<lparr>rt_account_id = ''a1'', rt_type = WITHDRAWAL, rt_amount = 100001,
                  rt_description = None\<rparr>" "''t2''" 20 example_db] 1
    by simp
  have 6: "snd (transfer
      \<lparr>from_account_id = ''a1'', to_account_id = ''b2'', tr_amount = 30000, tr_description = None\<rparr>
      ''d1'' ''c1'' 20 example_db) = example_db"
    using failed_operation_leaves_database_unchanged
            [of _ _ 20 example_db
                "\<lparr>from_account_id = ''a1'', to_account_id = ''b2'', tr_amount = 30000,
                  tr_description = None\<rparr>" "''d1''" "''c1''"] 2
    by simp
  have 7: "transfer
      \<lparr>from_account_id = ''a1'', to_account_id = ''c3'', tr_amount = 10000, tr_description = None\<rparr>
      ''d1'' ''c1'' 20 example_db = (Inl CurrencyMismatch, example_db)"
    using failed_operation_leaves_database_unchanged
            [of _ _ 20 example_db
                "\<lparr>from_account_id = ''a1'', to_account_id = ''c3'', tr_amount = 10000,
                  tr_description = None\<rparr>" "''d1''" "''c1''" account1 account3] 3
    by simp
  show ?thesis using 1 2 4 5 6 7 by (simp add: prod_eq_iff)
qed

section \<open>Transaction history\<close>












section \<open>Idempotency records\<close>

lemma store_existing:
  "idempotency_keys d keyHash = Some r \<Longrightarrow>
   storeIdempotencyRecord keyHash method path status body now d = d"
  by (simp add: storeIdempotencyRecord_def)

lemma store_other:
  "h \<noteq> keyHash \<Longrightarrow>
   idempotency_keys (storeIdempotencyRecord keyHash method path status body now d) h
     = idempotency_keys d h"
  by (simp add: storeIdempotencyRecord_def split: option.splits)

lemma store_attempts_keeps:
  "idempotency_keys d h = Some r \<Longrightarrow> idempotency_keys (store_attempts as d) h = Some r"
proof (induction as arbitrary: d)
  case Nil
  then show ?case by simp
next
  case (Cons a as)
  obtain keyHash m p st b t where a: "a = (keyHash, m, p, st, b, t)"
    by (cases a) auto
  have "idempotency_keys (store_attempt a d) h = Some r"
  proof (cases "h = keyHash")
    case True
    then show ?thesis using Cons.prems a by (simp add: store_existing)
  next
    case False
    then show ?thesis using Cons.prems a by (simp add: store_other)
  qed
  then show ?case using Cons.IH by simp
qed

text \<open>
  C7. A store for a hash that has no record inserts the record; a store for a hash that
  has one changes nothing in the database; and after a store for a hash, no sequence of
  further store attempts, for any hashes and in whatever order the database executes them,
  changes the record of that hash.
\<close>

theorem storeIdempotencyRecord_first_writer_wins:
  "(idempotency_keys d keyHash = None \<longrightarrow>
      idempotency_keys (storeIdempotencyRecord keyHash method path status body now d) keyHash
        = Some \<lparr>key_hash = keyHash, request_method = method, request_path = path,
                response_status = status, response_body = body,
                idem_created_at = now, expires_at = now + 86400000\<rparr>) \<and>
   (\<forall>r. idempotency_keys d keyHash = Some r \<longrightarrow>
      storeIdempotencyRecord keyHash method path status body now d = d) \<and>
   (\<forall>later. idempotency_keys
       (store_attempts later (storeIdempotencyRecord keyHash method path status body now d)) keyHash
      = idempotency_keys (storeIdempotencyRecord keyHash method path status body now d) keyHash) \<and>
   idempotency_keys (storeIdempotencyRecord keyHash method path status body now d) keyHash \<noteq> None"
proof (intro conjI impI allI)
  assume "idempotency_keys d keyHash = None"
  then show "idempotency_keys (storeIdempotencyRecord keyHash method path status body now d) keyHash
        = Some \<lparr>key_hash = keyHash, request_method = method, request_path = path,
                response_status = status, response_body = body,
                idem_created_at = now, expires_at = now + 86400000\<rparr>"
    by (simp add: storeIdempotencyRecord_def)
next
  fix r assume "idempotency_keys d keyHash = Some r"
  then show "storeIdempotencyRecord keyHash method path status body now d = d"
    by (rule store_existing)
next
  show ne: "idempotency_keys (storeIdempotencyRecord keyHash method path status body now d) keyHash \<noteq> None"
    by (simp add: storeIdempotencyRecord_def split: option.splits)
  fix later
  from ne obtain r where
    "idempotency_keys (storeIdempotencyRecord keyHash method path status body now d) keyHash = Some r"
    by blast
  then show "idempotency_keys
       (store_attempts later (storeIdempotencyRecord keyHash method path status body now d)) keyHash
      = idempotency_keys (storeIdempotencyRecord keyHash method path status body now d) keyHash"
    by (simp add: store_attempts_keeps)
qed

theorem storeIdempotencyRecord_first_writer_wins_witness:
  "idempotency_keys
     (store_attempts [(''h1'', ''POST'', ''/api/transactions'', 500, ''second'', 7),
                      (''h2'', ''POST'', ''/api/transactions'', 201, ''other'', 8),
                      (''h1'', ''POST'', ''/api/transactions'', 400, ''third'', 9)]
        (storeIdempotencyRecord ''h1'' ''POST'' ''/api/transactions'' 201 ''first'' 5 example_db))
     ''h1''
     = Some \<lparr>key_hash = ''h1'', request_method = ''POST'', request_path = ''/api/transactions'',
             response_status = 201, response_body = ''first'',
             idem_created_at = 5, expires_at = 86400005\<rparr> \<and>
   storeIdempotencyRecord ''h1'' ''POST'' ''/api/transactions'' 500 ''second'' 7
     (storeIdempotencyRecord ''h1'' ''POST'' ''/api/transactions'' 201 ''first'' 5 example_db)
     = storeIdempotencyRecord ''h1'' ''POST'' ''/api/transactions'' 201 ''first'' 5 example_db"
proof -
  have n: "idempotency_keys example_db ''h1'' = None" by (simp add: example_db_def)
  let ?d = "storeIdempotencyRecord ''h1'' ''POST'' ''/api/transactions'' 201 ''first'' 5 example_db"
  let ?later = "[(''h1'', ''POST'', ''/api/transactions'', 500, ''second'', 7),
                 (''h2'', ''POST'', ''/api/transactions'', 201, ''other'', 8),
                 (''h1'', ''POST'', ''/api/transactions'', 400, ''third'', 9)]"
  note first = storeIdempotencyRecord_first_writer_wins
                 [of example_db "''h1''" "''POST''" "''/api/transactions''" 201 "''first''" 5]
  have f: "idempotency_keys ?d ''h1''
     = Some \<lparr>key_hash = ''h1'', request_method = ''POST'', request_path = ''/api/transactions'',
             response_status = 201, response_body = ''first'',
             idem_created_at = 5, expires_at = 86400005\<rparr>"
    using first n by simp
  from first have "idempotency_keys (store_attempts ?later ?d) ''h1'' = idempotency_keys ?d ''h1''"
    by blast
  then have g1: "idempotency_keys (store_attempts ?later ?d) ''h1''
     = Some \<lparr>key_hash = ''h1'', request_method = ''POST'', request_path = ''/api/transactions'',
             response_status = 201, response_body = ''first'',
             idem_created_at = 5, expires_at = 86400005\<rparr>"
    by (simp only: f)
  have g2: "storeIdempotencyRecord ''h1'' ''POST'' ''/api/transactions'' 500 ''second'' 7 ?d = ?d"
    using storeIdempotencyRecord_first_writer_wins
            [of ?d "''h1''" "''POST''" "''/api/transactions''" 500 "''second''" 7] f
    by blast
  show ?thesis using g1 g2 by (rule conjI)
qed

text \<open>
  C10. The key hash is the digest of \<open>method:path:key\<close> and of nothing else; two requests
  with the same method, path and idempotency key get the same hash and the same decision
  of the middleware on any state of the store, whatever their bodies.
\<close>

theorem idempotency_hash_depends_on_method_path_key:
  "req_method r1 = req_method r2 \<and> req_path r1 = req_path r2 \<and>
   req_idempotency_key r1 = req_idempotency_key r2 \<longrightarrow>
     idempotencyMiddleware sha256_hex r1 now d = idempotencyMiddleware sha256_hex r2 now d \<and>
     (\<forall>k. req_idempotency_key r1 = Some k \<longrightarrow>
        generateIdempotencyKeyHash sha256_hex (req_method r1) (req_path r1) k
          = generateIdempotencyKeyHash sha256_hex (req_method r2) (req_path r2) k \<and>
        generateIdempotencyKeyHash sha256_hex (req_method r1) (req_path r1) k
          = sha256_hex (req_method r1 @ '':'' @ req_path r1 @ '':'' @ k))"
  by (auto simp: idempotencyMiddleware_def generateIdempotencyKeyHash_def split: option.splits)

theorem idempotency_hash_depends_on_method_path_key_witness:
  "idempotencyMiddleware (\<lambda>x. x)
      \<lparr>req_method = ''POST'', req_path = ''/api/transactions'',
       req_idempotency_key = Some ''test-key-123'', req_body = ''withdraw 200''\<rparr> 6
      (storeIdempotencyRecord ''POST:/api/transactions:test-key-123'' ''POST''
         ''/api/transactions'' 201 ''first'' 5 example_db)
   = idempotencyMiddleware (\<lambda>x. x)
      \<lparr>req_method = ''POST'', req_path = ''/api/transactions'',
       req_idempotency_key = Some ''test-key-123'', req_body = ''withdraw 999''\<rparr> 6
      (storeIdempotencyRecord ''POST:/api/transactions:test-key-123'' ''POST''
         ''/api/transactions'' 201 ''first'' 5 example_db) \<and>
   generateIdempotencyKeyHash (\<lambda>x. x) ''POST'' ''/api/transactions'' ''test-key-123''
     = ''POST:/api/transactions:test-key-123''"
  using idempotency_hash_depends_on_method_path_key
          [of "\<lparr>req_method = ''POST'', req_path = ''/api/transactions'',
                req_idempotency_key = Some ''test-key-123'', req_body = ''withdraw 200''\<rparr>"
              "\<lparr>req_method = ''POST'', req_path = ''/api/transactions'',
                req_idempotency_key = Some ''test-key-123'', req_body = ''withdraw 999''\<rparr>"
              "\<lambda>x. x" 6
              "storeIdempotencyRecord ''POST:/api/transactions:test-key-123'' ''POST''
                 ''/api/transactions'' 201 ''first'' 5 example_db"]
  by simp

section \<open>Concurrent withdrawals\<close>





lemma successes_append:
  "successes (c\<lparr>finished := finished c @ [(j, r)]\<rparr>) = successes c + (if isl r then 0 else 1)"
  by (simp add: successes_def)














end
